theory Spec2Isabelle
  imports Complex_Main "HOL-Library.Word"
begin

unbundle bit_operations_syntax

section \<open>The AXP192 driver (axp192.py) as state-passing functions\<close>

text \<open>
  The driver talks to the chip through an I2C device object. The model keeps the chip's
  register file (one byte per address) and the list of bus transactions issued so far.
  Every method of the class takes the device and returns its result together with the
  device afterwards; a Python exception is the left summand, and the device returned
  with it shows what had already been written when the exception was raised.

  Python's integers are \<open>int\<close>, with \<open>&\<close>, \<open>|\<close>, \<open>~\<close>, \<open><<\<close>, \<open>>>\<close> as
  \<open>AND\<close>, \<open>OR\<close>, \<open>NOT\<close>, \<open>push_bit\<close>, \<open>drop_bit\<close>.

  Python's floats are taken as real numbers with exact arithmetic: rounding, overflow,
  infinities and NaN are not modelled. The properties below that involve a voltage or a
  battery level are chosen so that they do not rest on the exact value of a rounded
  result; where one does, its text says so.

  A register is a byte of memory: it reads back what was last written to it. What the
  chip itself does to a register (the interrupt latch of register 0x46 is cleared by
  writing ones to it) is not part of the driver and is not modelled.
\<close>

subsection \<open>Values, errors, the device\<close>

datatype error = ValueError | ZeroDivisionError

text \<open>An argument whose type the code inspects with \<open>isinstance\<close>.\<close>

datatype pyval = PyInt int | PyFloat real | PyStr string

datatype bus_op = BusWrite int int | BusRead int nat

record device =
  regs :: "int \<Rightarrow> 8 word"
  bus_log :: "bus_op list"

type_synonym 'a io = "device \<Rightarrow> (error + 'a) \<times> device"

definition and_then :: "'a io \<Rightarrow> ('a \<Rightarrow> 'b io) \<Rightarrow> 'b io" where
  "and_then m f = (\<lambda>s. case m s of (Inl e, s') \<Rightarrow> (Inl e, s') | (Inr x, s') \<Rightarrow> f x s')"

definition returns :: "'a \<Rightarrow> 'a io" where
  "returns x = (\<lambda>s. (Inr x, s))"

definition raises :: "error \<Rightarrow> 'a io" where
  "raises e = (\<lambda>s. (Inl e, s))"

definition lift :: "error + 'a \<Rightarrow> 'a io" where
  "lift r = (\<lambda>s. (r, s))"

text \<open>A device whose registers all read 0 and that has seen no transaction.\<close>

definition blank_device :: device where
  "blank_device = \<lparr>regs = (\<lambda>_. 0), bus_log = []\<rparr>"

subsection \<open>Register addresses and bit masks\<close>

abbreviation (input) AXP192_DCDC13_LDO23_CTRL :: int where "AXP192_DCDC13_LDO23_CTRL \<equiv> 0x12"
abbreviation (input) AXP192_DCDC13_LDO23_CTRL_EXTEN :: int where "AXP192_DCDC13_LDO23_CTRL_EXTEN \<equiv> 0x40"
abbreviation (input) AXP192_DCDC13_LDO23_CTRL_DCDC2 :: int where "AXP192_DCDC13_LDO23_CTRL_DCDC2 \<equiv> 0x10"
abbreviation (input) AXP192_DCDC13_LDO23_CTRL_LDO3 :: int where "AXP192_DCDC13_LDO23_CTRL_LDO3 \<equiv> 0x08"
abbreviation (input) AXP192_DCDC13_LDO23_CTRL_LDO2 :: int where "AXP192_DCDC13_LDO23_CTRL_LDO2 \<equiv> 0x04"
abbreviation (input) AXP192_DCDC13_LDO23_CTRL_DCDC3 :: int where "AXP192_DCDC13_LDO23_CTRL_DCDC3 \<equiv> 0x02"
abbreviation (input) AXP192_DCDC13_LDO23_CTRL_DCDC1 :: int where "AXP192_DCDC13_LDO23_CTRL_DCDC1 \<equiv> 0x01"

abbreviation (input) AXP192_DCDC2_OUT_VOLTAGE :: int where "AXP192_DCDC2_OUT_VOLTAGE \<equiv> 0x25"
abbreviation (input) AXP192_DCDC1_OUT_VOLTAGE :: int where "AXP192_DCDC1_OUT_VOLTAGE \<equiv> 0x26"
abbreviation (input) AXP192_DCDC3_OUT_VOLTAGE :: int where "AXP192_DCDC3_OUT_VOLTAGE \<equiv> 0x27"
abbreviation (input) AXP192_LDO23_OUT_VOLTAGE :: int where "AXP192_LDO23_OUT_VOLTAGE \<equiv> 0x28"

abbreviation (input) AXP192_POWER_OFF_VOLTAGE :: int where "AXP192_POWER_OFF_VOLTAGE \<equiv> 0x31"
abbreviation (input) AXP192_CHARGING_CTRL1 :: int where "AXP192_CHARGING_CTRL1 \<equiv> 0x33"

abbreviation (input) AXP192_IRQ_3_STATUS :: int where "AXP192_IRQ_3_STATUS \<equiv> 0x46"
abbreviation (input) AXP192_IRQ_3_STATUS_PEK_SHORT_PRESS :: int where "AXP192_IRQ_3_STATUS_PEK_SHORT_PRESS \<equiv> 0x02"
abbreviation (input) AXP192_IRQ_3_STATUS_PEK_LONG_PRESS :: int where "AXP192_IRQ_3_STATUS_PEK_LONG_PRESS \<equiv> 0x01"

abbreviation (input) AXP192_GPIO0_FUNCTION :: int where "AXP192_GPIO0_FUNCTION \<equiv> 0x90"
abbreviation (input) AXP192_GPIO1_FUNCTION :: int where "AXP192_GPIO1_FUNCTION \<equiv> 0x92"
abbreviation (input) AXP192_GPIO2_FUNCTION :: int where "AXP192_GPIO2_FUNCTION \<equiv> 0x93"
abbreviation (input) AXP192_GPIO34_FUNCTION :: int where "AXP192_GPIO34_FUNCTION \<equiv> 0x95"

abbreviation (input) AXP192_PWM1_DUTY_RATIO_Y1 :: int where "AXP192_PWM1_DUTY_RATIO_Y1 \<equiv> 0x99"
abbreviation (input) AXP192_PWM2_DUTY_RATIO_Y1 :: int where "AXP192_PWM2_DUTY_RATIO_Y1 \<equiv> 0x9C"

subsection \<open>Register primitives\<close>

text \<open>
  \<open>_write_register8\<close> stores the register number and the value in a \<open>bytearray\<close>, which
  raises ValueError for anything outside 0..255, and then writes the two bytes to the bus.
\<close>

definition write_register8 :: "int \<Rightarrow> int \<Rightarrow> unit io" where
  "write_register8 register val = (\<lambda>s.
     if register < 0 \<or> 255 < register \<or> val < 0 \<or> 255 < val then (Inl ValueError, s)
     else (Inr (), s\<lparr>regs := (regs s)(register := word_of_int val),
                      bus_log := bus_log s @ [BusWrite register val]\<rparr>))"

text \<open>
  \<open>write_then_readinto\<close> sends the register number and reads \<open>n\<close> bytes; the chip answers
  with the bytes of \<open>n\<close> consecutive registers.
\<close>

definition write_then_readinto :: "int \<Rightarrow> nat \<Rightarrow> (int list) io" where
  "write_then_readinto register n = (\<lambda>s.
     if register < 0 \<or> 255 < register then (Inl ValueError, s)
     else (Inr (map (\<lambda>i. uint (regs s (register + int i))) [0..<n]),
           s\<lparr>bus_log := bus_log s @ [BusRead register n]\<rparr>))"

definition read_register8 :: "int \<Rightarrow> int io" where
  "read_register8 register =
     and_then (write_then_readinto register 1) (\<lambda>in_buf. returns (in_buf ! 0))"

definition read_register12 :: "int \<Rightarrow> int io" where
  "read_register12 register =
     and_then (write_then_readinto register 2)
       (\<lambda>in_buf. returns (push_bit 4 (in_buf ! 0) OR in_buf ! 1))"

definition read_register24 :: "int \<Rightarrow> int io" where
  "read_register24 register =
     and_then (write_then_readinto register 3)
       (\<lambda>in_buf. returns (push_bit 16 (in_buf ! 0) OR push_bit 8 (in_buf ! 1) OR in_buf ! 2))"

definition set_bit_in_register :: "int \<Rightarrow> int \<Rightarrow> unit io" where
  "set_bit_in_register register bitmask =
     and_then (read_register8 register) (\<lambda>val. write_register8 register (val OR bitmask))"

definition clear_bit_in_register :: "int \<Rightarrow> int \<Rightarrow> unit io" where
  "clear_bit_in_register register bitmask =
     and_then (read_register8 register) (\<lambda>val. write_register8 register (val AND NOT bitmask))"

subsection \<open>GPIO function multiplexer\<close>

fun validate_gpio_num :: "pyval \<Rightarrow> error + int" where
  "validate_gpio_num (PyInt gpio_num) =
     (if gpio_num < 0 \<or> 4 < gpio_num then Inl ValueError else Inr gpio_num)"
| "validate_gpio_num (PyFloat _) = Inl ValueError"
| "validate_gpio_num (PyStr _) = Inl ValueError"

definition set_gpio_function :: "int \<Rightarrow> int \<Rightarrow> unit io" where
  "set_gpio_function gpio_num function =
     (if gpio_num = 0 then write_register8 AXP192_GPIO0_FUNCTION (function AND 0x07)
      else if gpio_num = 1 then write_register8 AXP192_GPIO1_FUNCTION (function AND 0x07)
      else if gpio_num = 2 then write_register8 AXP192_GPIO2_FUNCTION (function AND 0x07)
      else if gpio_num = 3 then
        and_then (read_register8 AXP192_GPIO34_FUNCTION) (\<lambda>reg_val.
          write_register8 AXP192_GPIO34_FUNCTION ((reg_val AND NOT 0x03) OR (function AND 0x03)))
      else if gpio_num = 4 then
        and_then (read_register8 AXP192_GPIO34_FUNCTION) (\<lambda>reg_val.
          write_register8 AXP192_GPIO34_FUNCTION
            ((reg_val AND NOT 0x0C) OR push_bit 2 (function AND 0x03)))
      else raises ValueError)"

definition get_gpio_function :: "int \<Rightarrow> int io" where
  "get_gpio_function gpio_num =
     (if gpio_num = 0 then
        and_then (read_register8 AXP192_GPIO0_FUNCTION) (\<lambda>v. returns (v AND 0x07))
      else if gpio_num = 1 then
        and_then (read_register8 AXP192_GPIO1_FUNCTION) (\<lambda>v. returns (v AND 0x07))
      else if gpio_num = 2 then
        and_then (read_register8 AXP192_GPIO2_FUNCTION) (\<lambda>v. returns (v AND 0x07))
      else if gpio_num = 3 then
        and_then (read_register8 AXP192_GPIO34_FUNCTION) (\<lambda>v. returns (v AND 0x03))
      else if gpio_num = 4 then
        and_then (read_register8 AXP192_GPIO34_FUNCTION) (\<lambda>v. returns (drop_bit 2 v AND 0x03))
      else raises ValueError)"

definition set_gpio_floating :: "pyval \<Rightarrow> unit io" where
  "set_gpio_floating gpio_num =
     and_then (lift (validate_gpio_num gpio_num)) (\<lambda>n.
       if 0 \<le> n \<and> n \<le> 2 then set_gpio_function n 0x7 else raises ValueError)"

definition is_gpio_floating :: "pyval \<Rightarrow> bool io" where
  "is_gpio_floating gpio_num =
     and_then (lift (validate_gpio_num gpio_num)) (\<lambda>n.
       if 0 \<le> n \<and> n \<le> 2 then
         and_then (get_gpio_function n) (\<lambda>f. returns ((f AND 0x06) = 0x06))
       else raises ValueError)"

definition is_gpio_pwm_out :: "pyval \<Rightarrow> bool io" where
  "is_gpio_pwm_out gpio_num =
     and_then (lift (validate_gpio_num gpio_num)) (\<lambda>n.
       if 1 \<le> n \<and> n \<le> 2 then
         and_then (get_gpio_function n) (\<lambda>f. returns (f = 0x02))
       else raises ValueError)"

definition set_gpio_pwm_out :: "pyval \<Rightarrow> pyval \<Rightarrow> unit io" where
  "set_gpio_pwm_out gpio_num duty_cycle =
     and_then (lift (validate_gpio_num gpio_num)) (\<lambda>n.
       if 1 \<le> n \<and> n \<le> 2 then
         (case duty_cycle of
            PyInt d \<Rightarrow>
              if 0 \<le> d \<and> d \<le> 255 then
                (let pwm_reg =
                   (if n = 1 then AXP192_PWM1_DUTY_RATIO_Y1 else AXP192_PWM2_DUTY_RATIO_Y1)
                 in and_then (write_register8 pwm_reg 0xFF) (\<lambda>_.
                    and_then (write_register8 (pwm_reg + 1) d) (\<lambda>_.
                    set_gpio_function n 0x02)))
              else raises ValueError
          | PyFloat _ \<Rightarrow> raises ValueError
          | PyStr _ \<Rightarrow> raises ValueError)
       else raises ValueError)"

definition get_gpio_pwm_out :: "pyval \<Rightarrow> int io" where
  "get_gpio_pwm_out gpio_num =
     and_then (lift (validate_gpio_num gpio_num)) (\<lambda>n.
       if 1 \<le> n \<and> n \<le> 2 then
         and_then (is_gpio_pwm_out gpio_num) (\<lambda>pwm.
           if pwm then
             (let pwm_reg = (if n = 1 then AXP192_PWM1_DUTY_RATIO_Y1 else AXP192_PWM2_DUTY_RATIO_Y1)
              in read_register8 (pwm_reg + 1))
           else raises ValueError)
       else raises ValueError)"

text \<open>The value of \<open>pwm_reg\<close> in \<open>_set_gpio_pwm_out\<close> and \<open>_get_gpio_pwm_out\<close>.\<close>

definition pwm_reg_of :: "int \<Rightarrow> int" where
  "pwm_reg_of n = (if n = 1 then AXP192_PWM1_DUTY_RATIO_Y1 else AXP192_PWM2_DUTY_RATIO_Y1)"

subsection \<open>Voltage rails\<close>

text \<open>\<open>int(x)\<close> on a float truncates towards zero.\<close>

definition py_int :: "real \<Rightarrow> int" where
  "py_int x = (if 0 \<le> x then \<lfloor>x\<rfloor> else \<lceil>x\<rceil>)"

definition get_dcdcx_registers :: "int \<Rightarrow> error + int \<times> int \<times> int" where
  "get_dcdcx_registers num =
     (if num = 1 then Inr (AXP192_DCDC13_LDO23_CTRL_DCDC1, AXP192_DCDC1_OUT_VOLTAGE, 0x7F)
      else if num = 2 then Inr (AXP192_DCDC13_LDO23_CTRL_DCDC2, AXP192_DCDC2_OUT_VOLTAGE, 0x3F)
      else if num = 3 then Inr (AXP192_DCDC13_LDO23_CTRL_DCDC3, AXP192_DCDC3_OUT_VOLTAGE, 0x7F)
      else Inl ValueError)"

definition read_dcdcx_setpoint :: "int \<Rightarrow> real io" where
  "read_dcdcx_setpoint num =
     and_then (lift (get_dcdcx_registers num)) (\<lambda>(enable_bit, voltage_reg, max_value).
     and_then (read_register8 AXP192_DCDC13_LDO23_CTRL) (\<lambda>ctrl.
       if ctrl AND enable_bit = 0 then returns 0
       else and_then (read_register8 voltage_reg) (\<lambda>v.
         returns (real_of_int ((v AND max_value) * 25 + 700) / 1000))))"

definition write_dcdcx_setpoint :: "int \<Rightarrow> real \<Rightarrow> unit io" where
  "write_dcdcx_setpoint num voltage =
     and_then (lift (get_dcdcx_registers num)) (\<lambda>(enable_bit, voltage_reg, max_value).
       (let voltage = voltage - 0.7 in
        if voltage \<le> 0 then clear_bit_in_register AXP192_DCDC13_LDO23_CTRL enable_bit
        else
          (let reg_value = py_int (voltage * 1000) div 25;
               reg_value = min reg_value max_value
           in and_then (write_register8 voltage_reg reg_value) (\<lambda>_.
              set_bit_in_register AXP192_DCDC13_LDO23_CTRL enable_bit))))"

text \<open>The \<open>max_value\<close> that \<open>__get_dcdcx_registers\<close> gives for a DCDC number.\<close>

definition dcdc_max_code :: "int \<Rightarrow> int" where
  "dcdc_max_code num = (if num = 2 then 0x3F else 0x7F)"

definition get_ldo23_registers :: "int \<Rightarrow> error + int \<times> nat" where
  "get_ldo23_registers num =
     (if num = 2 then Inr (AXP192_DCDC13_LDO23_CTRL_LDO2, 4)
      else if num = 3 then Inr (AXP192_DCDC13_LDO23_CTRL_LDO3, 0)
      else Inl ValueError)"

definition read_ldo23_setpoint :: "int \<Rightarrow> real io" where
  "read_ldo23_setpoint num =
     and_then (lift (get_ldo23_registers num)) (\<lambda>(enable_bit, value_offset).
     and_then (read_register8 AXP192_DCDC13_LDO23_CTRL) (\<lambda>ctrl.
       if ctrl AND enable_bit = 0 then returns 0
       else and_then (read_register8 AXP192_LDO23_OUT_VOLTAGE) (\<lambda>v.
         (let reg_val = drop_bit value_offset v AND 0xF
          in returns (real_of_int (reg_val * 100 + 1800) / 1000)))))"

definition write_ldo23_setpoint :: "int \<Rightarrow> real \<Rightarrow> unit io" where
  "write_ldo23_setpoint num voltage =
     and_then (lift (get_ldo23_registers num)) (\<lambda>(enable_bit, value_offset).
       (let voltage = voltage - 1.8 in
        if voltage < 0 then clear_bit_in_register AXP192_DCDC13_LDO23_CTRL enable_bit
        else
          (let reg_val = py_int (voltage * 10);
               reg_val = min 0x0F reg_val;
               reg_val = push_bit value_offset reg_val;
               mask = NOT (push_bit value_offset 0x0F)
           in and_then (read_register8 AXP192_LDO23_OUT_VOLTAGE) (\<lambda>cur.
              and_then (write_register8 AXP192_LDO23_OUT_VOLTAGE ((cur AND mask) OR reg_val)) (\<lambda>_.
              set_bit_in_register AXP192_DCDC13_LDO23_CTRL enable_bit)))))"

text \<open>
  The five setpoint properties \<open>_dcdc1_setpoint\<close>, \<open>_dcdc2_setpoint\<close>, \<open>_dcdc3_setpoint\<close>,
  \<open>_ldo2_setpoint\<close> and \<open>_ldo3_setpoint\<close>, indexed by the rail they stand for.
\<close>

datatype rail = DCDC1 | DCDC2 | DCDC3 | LDO2 | LDO3

fun setpoint_get :: "rail \<Rightarrow> real io" where
  "setpoint_get DCDC1 = read_dcdcx_setpoint 1"
| "setpoint_get DCDC2 = read_dcdcx_setpoint 2"
| "setpoint_get DCDC3 = read_dcdcx_setpoint 3"
| "setpoint_get LDO2 = read_ldo23_setpoint 2"
| "setpoint_get LDO3 = read_ldo23_setpoint 3"

fun setpoint_set :: "rail \<Rightarrow> real \<Rightarrow> unit io" where
  "setpoint_set DCDC1 v = write_dcdcx_setpoint 1 v"
| "setpoint_set DCDC2 v = write_dcdcx_setpoint 2 v"
| "setpoint_set DCDC3 v = write_dcdcx_setpoint 3 v"
| "setpoint_set LDO2 v = write_ldo23_setpoint 2 v"
| "setpoint_set LDO3 v = write_ldo23_setpoint 3 v"

text \<open>Where each rail keeps its enable bit (in register 0x12) and its voltage code.\<close>

fun enable_bit_of :: "rail \<Rightarrow> int" where
  "enable_bit_of DCDC1 = AXP192_DCDC13_LDO23_CTRL_DCDC1"
| "enable_bit_of DCDC2 = AXP192_DCDC13_LDO23_CTRL_DCDC2"
| "enable_bit_of DCDC3 = AXP192_DCDC13_LDO23_CTRL_DCDC3"
| "enable_bit_of LDO2 = AXP192_DCDC13_LDO23_CTRL_LDO2"
| "enable_bit_of LDO3 = AXP192_DCDC13_LDO23_CTRL_LDO3"

fun voltage_reg_of :: "rail \<Rightarrow> int" where
  "voltage_reg_of DCDC1 = AXP192_DCDC1_OUT_VOLTAGE"
| "voltage_reg_of DCDC2 = AXP192_DCDC2_OUT_VOLTAGE"
| "voltage_reg_of DCDC3 = AXP192_DCDC3_OUT_VOLTAGE"
| "voltage_reg_of LDO2 = AXP192_LDO23_OUT_VOLTAGE"
| "voltage_reg_of LDO3 = AXP192_LDO23_OUT_VOLTAGE"

subsection \<open>Battery\<close>

definition battery_voltage :: "real io" where
  "battery_voltage = and_then (read_register12 0x78) (\<lambda>c. returns (0.0011 * real_of_int c))"

definition battery_charge_current :: "real io" where
  "battery_charge_current = and_then (read_register12 0x7A) (\<lambda>c. returns (0.5 * real_of_int c))"

definition battery_switch_off_voltage :: "real io" where
  "battery_switch_off_voltage =
     and_then (read_register8 AXP192_POWER_OFF_VOLTAGE) (\<lambda>v.
       (let reg_val = v AND 0x07 in returns (2.6 + 0.1 * real_of_int reg_val)))"

definition battery_charge_target_voltage :: "real io" where
  "battery_charge_target_voltage =
     and_then (read_register8 AXP192_CHARGING_CTRL1) (\<lambda>v.
       (let reg_val = drop_bit 5 (v AND 0x60) in
        if reg_val = 0 then returns 4.1
        else if reg_val = 1 then returns 4.15
        else if reg_val = 2 then returns 4.2
        else returns 4.36))"

definition battery_level :: "real io" where
  "battery_level =
     and_then battery_voltage (\<lambda>bat_voltage.
     and_then battery_charge_current (\<lambda>bat_chg_current.
     and_then battery_switch_off_voltage (\<lambda>vmin.
     and_then battery_charge_target_voltage (\<lambda>vmax.
       if vmax - vmin = 0 then raises ZeroDivisionError
       else
         (let level = (bat_voltage - vmin) / (vmax - vmin) * 100;
              level = (if bat_chg_current > 15 then level - 10 else level)
          in returns (min 100 (max 0 level)))))))"

subsection \<open>Power key\<close>

definition power_key_was_pressed :: "(bool \<times> bool) io" where
  "power_key_was_pressed =
     and_then (read_register8 AXP192_IRQ_3_STATUS) (\<lambda>reg_val.
       (let short_press = (reg_val AND AXP192_IRQ_3_STATUS_PEK_SHORT_PRESS \<noteq> 0);
            long_press = (reg_val AND AXP192_IRQ_3_STATUS_PEK_LONG_PRESS \<noteq> 0)
        in if short_press \<or> long_press then
             and_then
               (write_register8 AXP192_IRQ_3_STATUS
                  (AXP192_IRQ_3_STATUS_PEK_SHORT_PRESS OR AXP192_IRQ_3_STATUS_PEK_LONG_PRESS))
               (\<lambda>_. returns (short_press, long_press))
           else returns (short_press, long_press)))"

subsection \<open>Example devices\<close>

text \<open>
  DCDC1 enabled with code 0x50; LDO2 and LDO3 disabled, with the codes 0xA and 0x5 left in
  their nibbles of register 0x28.
\<close>

definition stale_device :: device where
  "stale_device = \<lparr>regs = (\<lambda>_. 0)(0x12 := 0x01, 0x26 := 0x50, 0x28 := 0xA5), bus_log = []\<rparr>"

text \<open>ADC register 0x56 holds 0x01 and 0x57 holds 0x23.\<close>

definition adc_device :: device where
  "adc_device = \<lparr>regs = (\<lambda>_. 0)(0x56 := 0x01, 0x57 := 0x23), bus_log = []\<rparr>"

text \<open>
  GPIO0 has function code 7, GPIO1 code 6 and GPIO2 code 2 (PWM) with duty register 0x9D
  at 0x80; both power-key bits of register 0x46 are latched.
\<close>

definition gpio_device :: device where
  "gpio_device =
     \<lparr>regs = (\<lambda>_. 0)(0x90 := 0x07, 0x92 := 0x06, 0x93 := 0x02, 0x9D := 0x80, 0x46 := 0x03),
      bus_log = []\<rparr>"

section \<open>Properties\<close>

subsection \<open>What the register primitives do\<close>

lemma read_register8_eq:
  "0 \<le> r \<Longrightarrow> r \<le> 255 \<Longrightarrow>
   read_register8 r s = (Inr (uint (regs s r)), s\<lparr>bus_log := bus_log s @ [BusRead r 1]\<rparr>)"
  by (simp add: read_register8_def write_then_readinto_def and_then_def returns_def)

lemma write_register8_eq:
  "0 \<le> r \<Longrightarrow> r \<le> 255 \<Longrightarrow> 0 \<le> v \<Longrightarrow> v \<le> 255 \<Longrightarrow>
   write_register8 r v s = (Inr (), s\<lparr>regs := (regs s)(r := word_of_int v),
                      bus_log := bus_log s @ [BusWrite r v]\<rparr>)"
  by (simp add: write_register8_def)

lemma byte_bounds: "0 \<le> uint (w :: 8 word)" "uint (w :: 8 word) \<le> 255"
  using uint_lt2p [of w] by simp_all

lemma byte_and_bounds: "0 \<le> uint (w :: 8 word) AND m" "uint (w :: 8 word) AND m \<le> 255"
proof -
  show "0 \<le> uint w AND m" by simp
  have "uint w AND m \<le> uint w" by (rule AND_upper1) simp
  then show "uint w AND m \<le> 255" using byte_bounds(2) [of w] by linarith
qed

lemma byte_or_bounds:
  assumes "0 \<le> m" "m \<le> 255"
  shows "0 \<le> uint (w :: 8 word) OR m" "uint (w :: 8 word) OR m \<le> 255"
proof -
  show "0 \<le> uint w OR m" using assms by simp
  have "uint w OR m < 2 ^ 8"
    by (rule OR_upper) (use assms byte_bounds [of w] in simp_all)
  then show "uint w OR m \<le> 255" by simp
qed

lemma clear_bit_in_register_eq:
  "0 \<le> r \<Longrightarrow> r \<le> 255 \<Longrightarrow>
   clear_bit_in_register r m s =
     (Inr (), s\<lparr>regs := (regs s)(r := word_of_int (uint (regs s r) AND NOT m)),
                 bus_log := bus_log s @ [BusRead r 1, BusWrite r (uint (regs s r) AND NOT m)]\<rparr>)"
  by (simp add: clear_bit_in_register_def and_then_def read_register8_eq write_register8_eq byte_and_bounds)

lemma set_bit_in_register_eq:
  "0 \<le> r \<Longrightarrow> r \<le> 255 \<Longrightarrow> 0 \<le> m \<Longrightarrow> m \<le> 255 \<Longrightarrow>
   set_bit_in_register r m s =
     (Inr (), s\<lparr>regs := (regs s)(r := word_of_int (uint (regs s r) OR m)),
                 bus_log := bus_log s @ [BusRead r 1, BusWrite r (uint (regs s r) OR m)]\<rparr>)"
  by (simp add: set_bit_in_register_def and_then_def read_register8_eq write_register8_eq byte_or_bounds)

lemma uint_byte_of_int: "0 \<le> v \<Longrightarrow> v \<le> 255 \<Longrightarrow> uint (word_of_int v :: 8 word) = v"
  by (simp add: uint_word_of_int take_bit_eq_mod)

lemma mask4: "(15::int) = mask 4" "(240::int) = push_bit 4 (mask 4)" "(3::int) = mask 2" "(12::int) = push_bit 2 (mask 2)" "(7::int) = mask 3"
  by (simp_all add: mask_eq_exp_minus_1)

lemma and_not_and_self: "(x AND NOT m) AND m = (0::int)"
  by (simp add: and.assoc)

lemma high_nibble_merge_keeps_low:
  "((x AND NOT (push_bit 4 (15::int))) OR push_bit 4 c) AND 15 = x AND 15"
  unfolding mask4 by (auto simp: bit_eq_iff bit_simps)

lemma low_nibble_merge_keeps_high:
  "0 \<le> c \<Longrightarrow> c \<le> 15 \<Longrightarrow> drop_bit 4 ((x AND NOT (push_bit 0 (15::int))) OR push_bit 0 c) AND 15 = drop_bit 4 x AND 15"
proof -
  assume "0 \<le> c" "c \<le> 15"
  then have c: "take_bit 4 c = c" by (simp add: take_bit_int_eq_self)
  have "drop_bit 4 ((x AND NOT (mask 4)) OR take_bit 4 c) AND mask 4 = drop_bit 4 x AND (mask 4 :: int)"
    by (auto simp: bit_eq_iff bit_simps)
  then show ?thesis by (simp add: c mask4)
qed

lemma gpio3_merge_keeps_gpio4:
  "drop_bit 2 ((x AND NOT (3::int)) OR (f AND 3)) AND 3 = drop_bit 2 x AND 3"
proof -
  have "drop_bit 2 ((x AND NOT (mask 2)) OR (f AND mask 2)) AND mask 2 = drop_bit 2 x AND (mask 2 :: int)"
    by (rule bit_eqI) (auto simp: bit_simps)
  then show ?thesis by (simp add: mask4)
qed

lemma gpio4_merge_keeps_gpio3:
  "((x AND NOT (12::int)) OR push_bit 2 (f AND 3)) AND 3 = x AND 3"
  unfolding mask4 by (auto simp: bit_eq_iff bit_simps)

lemma merge_bounds:
  "0 \<le> m \<Longrightarrow> m \<le> 255 \<Longrightarrow> 0 \<le> (uint (w :: 8 word) AND k) OR m \<and> (uint w AND k) OR m \<le> 255"
proof -
  assume m: "0 \<le> m" "m \<le> 255"
  have a: "0 \<le> uint w AND k" "uint w AND k < 2 ^ 8" using byte_and_bounds [of w k] by simp_all
  have "(uint w AND k) OR m < 2 ^ 8" by (rule OR_upper) (use a m in simp_all)
  then show ?thesis using a m by simp
qed

lemma read_register12_eq:
  "0 \<le> r \<Longrightarrow> r \<le> 255 \<Longrightarrow>
   read_register12 r s =
     (Inr (push_bit 4 (uint (regs s r)) OR uint (regs s (r + 1))),
      s\<lparr>bus_log := bus_log s @ [BusRead r 2]\<rparr>)"
  by (simp add: read_register12_def write_then_readinto_def and_then_def returns_def upt_rec numeral_2_eq_2)

subsection \<open>Rails: the disabled state\<close>

lemma setpoint_set_zero:
  "setpoint_set r 0 s =
     (Inr (), s\<lparr>regs := (regs s)(0x12 := word_of_int (uint (regs s 0x12) AND NOT (enable_bit_of r))),
                 bus_log := bus_log s @ [BusRead 0x12 1, BusWrite 0x12 (uint (regs s 0x12) AND NOT (enable_bit_of r))]\<rparr>)"
  by (cases r)
    (simp_all add: write_dcdcx_setpoint_def write_ldo23_setpoint_def get_dcdcx_registers_def
      get_ldo23_registers_def and_then_def lift_def clear_bit_in_register_eq)

lemma setpoint_get_disabled:
  "uint (regs s 0x12) AND enable_bit_of r = 0 \<Longrightarrow>
   setpoint_get r s = (Inr 0, s\<lparr>bus_log := bus_log s @ [BusRead 0x12 1]\<rparr>)"
  by (cases r)
    (simp_all add: read_dcdcx_setpoint_def read_ldo23_setpoint_def get_dcdcx_registers_def
      get_ldo23_registers_def and_then_def lift_def returns_def read_register8_eq)

lemma voltage_reg_not_ctrl: "voltage_reg_of r \<noteq> 0x12"
  by (cases r) simp_all

text \<open>
  C2. For every rail, setting the setpoint to 0 V succeeds, clears the rail's enable bit in
  register 0x12 with one read and one write of that register and nothing else on the bus,
  and leaves the rail's voltage-code register as it was; the getter then returns 0. And
  whenever the enable bit is clear, the getter returns 0 whatever the voltage-code
  register holds.
\<close>

theorem zero_volt_disables_rail:
  "(\<exists>s'. setpoint_set r 0 s = (Inr (), s')
      \<and> uint (regs s' AXP192_DCDC13_LDO23_CTRL) AND enable_bit_of r = 0
      \<and> regs s' (voltage_reg_of r) = regs s (voltage_reg_of r)
      \<and> bus_log s' = bus_log s @
            [BusRead AXP192_DCDC13_LDO23_CTRL 1,
             BusWrite AXP192_DCDC13_LDO23_CTRL
               (uint (regs s AXP192_DCDC13_LDO23_CTRL) AND NOT (enable_bit_of r))]
      \<and> fst (setpoint_get r s') = Inr 0)
   \<and> (uint (regs s AXP192_DCDC13_LDO23_CTRL) AND enable_bit_of r = 0
        \<longrightarrow> fst (setpoint_get r s) = Inr 0)"
proof -
  let ?v = "uint (regs s 0x12) AND NOT (enable_bit_of r)"
  let ?s' = "s\<lparr>regs := (regs s)(0x12 := word_of_int ?v),
               bus_log := bus_log s @ [BusRead 0x12 1, BusWrite 0x12 ?v]\<rparr>"
  have clear: "uint (regs ?s' 0x12) AND enable_bit_of r = 0"
    by (simp add: uint_byte_of_int byte_and_bounds and_not_and_self)
  have "fst (setpoint_get r ?s') = Inr 0"
    using setpoint_get_disabled [OF clear] by simp
  with clear have "setpoint_set r 0 s = (Inr (), ?s')
      \<and> uint (regs ?s' 0x12) AND enable_bit_of r = 0
      \<and> regs ?s' (voltage_reg_of r) = regs s (voltage_reg_of r)
      \<and> bus_log ?s' = bus_log s @ [BusRead 0x12 1, BusWrite 0x12 ?v]
      \<and> fst (setpoint_get r ?s') = Inr 0"
    by (simp add: setpoint_set_zero voltage_reg_not_ctrl)
  then have "\<exists>s'. setpoint_set r 0 s = (Inr (), s')
      \<and> uint (regs s' 0x12) AND enable_bit_of r = 0
      \<and> regs s' (voltage_reg_of r) = regs s (voltage_reg_of r)
      \<and> bus_log s' = bus_log s @ [BusRead 0x12 1, BusWrite 0x12 ?v]
      \<and> fst (setpoint_get r s') = Inr 0"
    by blast
  moreover have "uint (regs s 0x12) AND enable_bit_of r = 0 \<longrightarrow> fst (setpoint_get r s) = Inr 0"
    by (simp add: setpoint_get_disabled)
  ultimately show ?thesis by blast
qed

theorem zero_volt_disables_rail_witness:
  "uint (regs stale_device AXP192_DCDC13_LDO23_CTRL) AND enable_bit_of LDO2 = 0
   \<and> regs stale_device (voltage_reg_of LDO2) = 0xA5
   \<and> fst (setpoint_get LDO2 stale_device) = Inr 0
   \<and> fst (setpoint_set DCDC1 0 stale_device) = Inr ()
   \<and> regs (snd (setpoint_set DCDC1 0 stale_device)) (voltage_reg_of DCDC1) = 0x50
   \<and> fst (setpoint_get DCDC1 (snd (setpoint_set DCDC1 0 stale_device))) = Inr 0"
proof -
  have h: "uint (regs stale_device AXP192_DCDC13_LDO23_CTRL) AND enable_bit_of LDO2 = 0"
    by (simp add: stale_device_def)
  have "fst (setpoint_get LDO2 stale_device) = Inr 0"
    using zero_volt_disables_rail [of LDO2 stale_device] h by blast
  moreover have "fst (setpoint_set DCDC1 0 stale_device) = Inr ()
   \<and> regs (snd (setpoint_set DCDC1 0 stale_device)) (voltage_reg_of DCDC1) = 0x50
   \<and> fst (setpoint_get DCDC1 (snd (setpoint_set DCDC1 0 stale_device))) = Inr 0"
    using zero_volt_disables_rail [of DCDC1 stale_device] by (auto simp: stale_device_def)
  ultimately show ?thesis using h by (simp add: stale_device_def)
qed

subsection \<open>Rails: the lowest DCDC voltage\<close>

text \<open>
  C1. The round trip fails at the lowest voltage of the DCDC rails. From every device
  state, setting DCDC1, DCDC2 or DCDC3 to 0.7 V succeeds, but it clears the rail's enable
  bit (the difference to the base voltage is 0, and the setter tests \<open>voltage <= 0\<close>), so
  that the getter then returns 0 and not a value within 25 mV of 0.7. The subtraction
  \<open>0.7 - 0.7\<close> is exact in floating point too.
\<close>

theorem dcdc_base_voltage_disables_rail:
  "(\<exists>s'. setpoint_set DCDC1 0.7 s = (Inr (), s')
      \<and> uint (regs s' AXP192_DCDC13_LDO23_CTRL) AND enable_bit_of DCDC1 = 0
      \<and> fst (setpoint_get DCDC1 s') = Inr 0)
   \<and> (\<exists>s'. setpoint_set DCDC2 0.7 s = (Inr (), s')
      \<and> uint (regs s' AXP192_DCDC13_LDO23_CTRL) AND enable_bit_of DCDC2 = 0
      \<and> fst (setpoint_get DCDC2 s') = Inr 0)
   \<and> (\<exists>s'. setpoint_set DCDC3 0.7 s = (Inr (), s')
      \<and> uint (regs s' AXP192_DCDC13_LDO23_CTRL) AND enable_bit_of DCDC3 = 0
      \<and> fst (setpoint_get DCDC3 s') = Inr 0)"
proof -
  have set: "setpoint_set r 0.7 s = setpoint_set r 0 s" if "r = DCDC1 \<or> r = DCDC2 \<or> r = DCDC3" for r
    using that
    by (auto simp: write_dcdcx_setpoint_def get_dcdcx_registers_def and_then_def lift_def)
  have one: "\<exists>s'. setpoint_set r 0.7 s = (Inr (), s')
      \<and> uint (regs s' AXP192_DCDC13_LDO23_CTRL) AND enable_bit_of r = 0
      \<and> fst (setpoint_get r s') = Inr 0" if "r = DCDC1 \<or> r = DCDC2 \<or> r = DCDC3" for r
  proof -
    let ?v = "uint (regs s 0x12) AND NOT (enable_bit_of r)"
    let ?s' = "s\<lparr>regs := (regs s)(0x12 := word_of_int ?v),
               bus_log := bus_log s @ [BusRead 0x12 1, BusWrite 0x12 ?v]\<rparr>"
    have clear: "uint (regs ?s' 0x12) AND enable_bit_of r = 0"
      by (simp add: uint_byte_of_int byte_and_bounds and_not_and_self)
    have "fst (setpoint_get r ?s') = Inr 0"
      using setpoint_get_disabled [OF clear] by simp
    moreover have "setpoint_set r 0.7 s = (Inr (), ?s')"
      using set [OF that] by (simp add: setpoint_set_zero)
    ultimately show ?thesis using clear by blast
  qed
  show ?thesis using one [of DCDC1] one [of DCDC2] one [of DCDC3] by simp
qed

lemma dcdc1_set_to_base_voltage_reads_zero:
  "fst (setpoint_get DCDC1 stale_device) = Inr 2.7
   \<and> fst (setpoint_set DCDC1 0.7 stale_device) = Inr ()
   \<and> fst (setpoint_get DCDC1 (snd (setpoint_set DCDC1 0.7 stale_device))) = Inr 0"
  by (simp add: read_dcdcx_setpoint_def write_dcdcx_setpoint_def get_dcdcx_registers_def
      and_then_def lift_def returns_def read_register8_eq clear_bit_in_register_eq stale_device_def)

subsection \<open>Rails: the round trip above the boundary, in exact arithmetic\<close>

text \<open>
  With exact arithmetic in place of floating point, every other voltage of the documented
  ranges makes the round trip: the getter returns a value at most one step below the
  request. This is the arithmetic the setters and getters are written to do. It does not
  carry over to binary floating point as it stands: there a request on the grid can be
  truncated to the code below (\<open>2.0 - 1.8\<close> is 0.19999999999999996 in double precision, so
  that 2.0 V on an LDO rail is stored as code 1 and read back as 1.9 V).
\<close>

lemma or_and_self: "(x OR m) AND m = (m::int)"
  by (auto simp: bit_eq_iff bit_simps)

lemma and_low_bits_id:
  "0 \<le> c \<Longrightarrow> c \<le> 127 \<Longrightarrow> c AND 127 = (c::int)"
  "0 \<le> c \<Longrightarrow> c \<le> 63 \<Longrightarrow> c AND 63 = (c::int)"
proof -
  have t: "c AND mask n = c" if "0 \<le> c" "c < 2 ^ n" for n
    using that by (simp add: take_bit_eq_mask [symmetric] take_bit_int_eq_self)
  have m: "mask 7 = (127::int)" "mask 6 = (63::int)" by (simp_all add: mask_eq_exp_minus_1)
  show "c AND 127 = c" if "0 \<le> c" "c \<le> 127"
  proof -
    from that have "c < 2 ^ 7" by simp
    from t [OF that(1) this] show ?thesis by (simp only: m)
  qed
  show "c AND 63 = c" if "0 \<le> c" "c \<le> 63"
  proof -
    from that have "c < 2 ^ 6" by simp
    from t [OF that(1) this] show ?thesis by (simp only: m)
  qed
qed

lemma dcdc_code_bounds:
  assumes "0 < d" "d * 1000 \<le> real_of_int (25 * m)" "0 \<le> m"
  defines "c \<equiv> py_int (d * 1000) div 25"
  shows "0 \<le> c" "c \<le> m" "real_of_int (25 * c) \<le> d * 1000" "d * 1000 < real_of_int (25 * c + 25)"
proof -
  let ?k = "\<lfloor>d * 1000\<rfloor>"
  have k: "py_int (d * 1000) = ?k" using assms(1) by (simp add: py_int_def)
  have k0: "0 \<le> ?k" using assms(1) by simp
  have km: "?k \<le> 25 * m" using assms(2) by (simp add: floor_le_iff)
  show "0 \<le> c" using k0 unfolding c_def k by (rule pos_imp_zdiv_nonneg_iff [THEN iffD2, rotated]) simp
  show "c \<le> m" using km unfolding c_def k by (metis zdiv_mono1 nonzero_mult_div_cancel_left zero_less_numeral zero_neq_numeral)
  have "25 * (?k div 25) \<le> ?k" by simp
  moreover have "real_of_int ?k \<le> d * 1000" by simp
  ultimately show "real_of_int (25 * c) \<le> d * 1000" unfolding c_def k by linarith
  have "?k < 25 * (?k div 25) + 25"
    using pos_mod_bound [of 25 ?k] by (simp add: minus_mult_div_eq_mod [symmetric])
  then have "?k + 1 \<le> 25 * (?k div 25) + 25" by simp
  moreover have "d * 1000 < real_of_int (?k + 1)" by linarith
  ultimately show "d * 1000 < real_of_int (25 * c + 25)" unfolding c_def k by linarith
qed

lemma write_then_read_dcdcx:
  assumes num: "num = 1 \<or> num = 2 \<or> num = 3"
    and pos: "0 < v - 0.7"
    and c: "0 \<le> py_int ((v - 0.7) * 1000) div 25" "py_int ((v - 0.7) * 1000) div 25 \<le> dcdc_max_code num"
  shows "\<exists>s'. write_dcdcx_setpoint num v s = (Inr (), s')
     \<and> fst (read_dcdcx_setpoint num s') = Inr (real_of_int (py_int ((v - 0.7) * 1000) div 25 * 25 + 700) / 1000)"
proof -
  define code where "code = py_int (v * 1000 - 700) div 25"
  have c': "0 \<le> code" "code \<le> dcdc_max_code num" using c by (simp_all add: code_def)
  then have c255: "code \<le> 255" by (simp add: dcdc_max_code_def split: if_splits)
  have mn: "min code (dcdc_max_code num) = code" using c' by simp
  have eb: "(uint (regs s 0x12) OR e) AND e \<noteq> 0" if "e \<noteq> 0" for e
    using that by (simp add: or_and_self)
  have ob: "0 \<le> uint (regs s 0x12) OR e \<and> uint (regs s 0x12) OR e \<le> 255" if "0 \<le> e" "e \<le> 255" for e
    using byte_or_bounds [OF that, of "regs s 0x12"] by simp
  have lowid: "code AND dcdc_max_code num = code"
    using c' and_low_bits_id [of code] by (auto simp: dcdc_max_code_def split: if_splits)
  from num show ?thesis
    using pos c' c255 mn lowid unfolding code_def [symmetric]
    by (auto simp: write_dcdcx_setpoint_def read_dcdcx_setpoint_def get_dcdcx_registers_def
        and_then_def lift_def returns_def Let_def read_register8_eq write_register8_eq
        set_bit_in_register_eq uint_byte_of_int ob eb dcdc_max_code_def code_def [symmetric])
qed

lemma dcdc_roundtrip_exact:
  assumes range: "r = DCDC1 \<and> v \<le> 3.5 \<or> r = DCDC2 \<and> v \<le> 2.275 \<or> r = DCDC3 \<and> v \<le> 3.5"
    and above: "0.7 < v"
  shows "\<exists>s' g. setpoint_set r v s = (Inr (), s') \<and> fst (setpoint_get r s') = Inr g
           \<and> g \<le> v \<and> v - g < 0.025"
proof -
  define num :: int where "num = (if r = DCDC1 then 1 else if r = DCDC2 then 2 else 3)"
  define m :: int where "m = (if r = DCDC2 then 63 else 112)"
  define c where "c = py_int ((v - 0.7) * 1000) div 25"
  have num: "num = 1 \<or> num = 2 \<or> num = 3" by (simp add: num_def)
  have set: "setpoint_set r v = write_dcdcx_setpoint num v"
    and get: "setpoint_get r = read_dcdcx_setpoint num"
    using range by (auto simp: num_def)
  have pos: "0 < v - 0.7" using above by simp
  have le: "(v - 0.7) * 1000 \<le> real_of_int (25 * m)"
    using range by (auto simp: m_def)
  have m0: "0 \<le> m" by (simp add: m_def)
  note b = dcdc_code_bounds [OF pos le m0, folded c_def]
  have "m \<le> dcdc_max_code num" using range by (auto simp: m_def num_def dcdc_max_code_def)
  with b(2) have cm: "c \<le> dcdc_max_code num" by linarith
  obtain s' where s': "write_dcdcx_setpoint num v s = (Inr (), s')"
      "fst (read_dcdcx_setpoint num s') = Inr (real_of_int (c * 25 + 700) / 1000)"
    using write_then_read_dcdcx [OF num pos, folded c_def, OF b(1) cm, of s] by blast
  define g where "g = real_of_int (c * 25 + 700) / 1000"
  have g: "g = (real_of_int (25 * c) + 700) / 1000" by (simp add: g_def mult.commute)
  have lo: "g \<le> v" unfolding g using b(3) by (simp add: field_simps)
  have hi: "v - g < 0.025" unfolding g using b(4) by (simp add: field_simps)
  have "setpoint_set r v s = (Inr (), s')" by (simp only: set s'(1))
  moreover have "fst (setpoint_get r s') = Inr g" by (simp only: get s'(2) g_def)
  ultimately show ?thesis using lo hi by blast
qed

lemma nibble_merge_reads_back:
  assumes "0 \<le> c" "c \<le> (15::int)"
  shows "drop_bit 4 ((x AND NOT (push_bit 4 15)) OR push_bit 4 c) AND 15 = c"
    and "drop_bit 0 ((x AND NOT (push_bit 0 15)) OR push_bit 0 c) AND 15 = c"
proof -
  from assms have t: "take_bit 4 c = c" by (simp add: take_bit_int_eq_self)
  have "drop_bit 4 ((x AND NOT (push_bit 4 (mask 4))) OR push_bit 4 (take_bit 4 c)) AND mask 4 = take_bit 4 c"
    by (rule bit_eqI) (auto simp: bit_simps)
  then show "drop_bit 4 ((x AND NOT (push_bit 4 15)) OR push_bit 4 c) AND 15 = c"
    by (simp add: t mask4)
  have "((x AND NOT (mask 4)) OR take_bit 4 c) AND mask 4 = take_bit 4 c"
    by (rule bit_eqI) (auto simp: bit_simps)
  then show "drop_bit 0 ((x AND NOT (push_bit 0 15)) OR push_bit 0 c) AND 15 = c"
    by (simp add: t mask4)
qed

lemma ldo_code_exact:
  assumes "0 \<le> d" "d * 10 \<le> 15"
  defines "c \<equiv> min 15 (py_int (d * 10))"
  shows "0 \<le> c" "c \<le> 15" "real_of_int c \<le> d * 10" "d * 10 < real_of_int c + 1"
proof -
  have k: "py_int (d * 10) = \<lfloor>d * 10\<rfloor>" using assms(1) by (simp add: py_int_def)
  have k0: "0 \<le> \<lfloor>d * 10\<rfloor>" using assms(1) by simp
  have k15: "\<lfloor>d * 10\<rfloor> \<le> 15" using assms(2) by (simp add: floor_le_iff)
  then have c: "c = \<lfloor>d * 10\<rfloor>" by (simp add: c_def k)
  show "0 \<le> c" "c \<le> 15" using k0 k15 by (simp_all add: c)
  show "real_of_int c \<le> d * 10" unfolding c by linarith
  show "d * 10 < real_of_int c + 1" unfolding c by linarith
qed

lemma write_then_read_ldo23:
  assumes num: "num = 2 \<or> num = 3"
    and pos: "0 \<le> v - 1.8"
    and c: "0 \<le> min 15 (py_int ((v - 1.8) * 10))"
  shows "\<exists>s'. write_ldo23_setpoint num v s = (Inr (), s')
     \<and> fst (read_ldo23_setpoint num s')
        = Inr (real_of_int (min 15 (py_int ((v - 1.8) * 10)) * 100 + 1800) / 1000)"
proof -
  define code where "code = min 15 (py_int (v * 10 - 18))"
  have c': "0 \<le> code" "code \<le> 15" using c by (simp_all add: code_def)
  have "push_bit 4 code = code * 16" by (simp add: push_bit_eq_mult)
  with c' have p4: "0 \<le> push_bit 4 code" "push_bit 4 code \<le> 255" by linarith+
  have p0: "0 \<le> push_bit 0 code" "push_bit 0 code \<le> 255" using c' by simp_all
  let ?x = "uint (regs s 0x28)"
  have b4: "0 \<le> (?x AND NOT (push_bit 4 15)) OR push_bit 4 code"
      "(?x AND NOT (push_bit 4 15)) OR push_bit 4 code \<le> 255"
    using merge_bounds [OF p4] by simp_all
  have b0: "0 \<le> (?x AND NOT (push_bit 0 15)) OR push_bit 0 code"
      "(?x AND NOT (push_bit 0 15)) OR push_bit 0 code \<le> 255"
    using merge_bounds [OF p0] by simp_all
  have r4: "drop_bit 4 (uint (word_of_int ((?x AND NOT (push_bit 4 15)) OR push_bit 4 code) :: 8 word)) AND 15 = code"
    using b4 c' by (simp only: uint_byte_of_int nibble_merge_reads_back)
  have r0: "drop_bit 0 (uint (word_of_int ((?x AND NOT (push_bit 0 15)) OR push_bit 0 code) :: 8 word)) AND 15 = code"
    using b0 c' by (simp only: uint_byte_of_int nibble_merge_reads_back)
  have eb: "(uint (regs s 0x12) OR e) AND e \<noteq> 0" if "e \<noteq> 0" for e
    using that by (simp add: or_and_self)
  have ob: "0 \<le> uint (regs s 0x12) OR e \<and> uint (regs s 0x12) OR e \<le> 255" if "0 \<le> e" "e \<le> 255" for e
    using byte_or_bounds [OF that, of "regs s 0x12"] by simp
  from num show ?thesis
  proof
    assume n: "num = 2"
    have w: "write_ldo23_setpoint 2 v s =
      (Inr (), s\<lparr>regs := (regs s)(0x28 := word_of_int ((?x AND NOT (push_bit 4 15)) OR push_bit 4 code),
                              0x12 := word_of_int (uint (regs s 0x12) OR 4)),
         bus_log := bus_log s @ [BusRead 0x28 1, BusWrite 0x28 ((?x AND NOT (push_bit 4 15)) OR push_bit 4 code),
            BusRead 0x12 1, BusWrite 0x12 (uint (regs s 0x12) OR 4)]\<rparr>)"
      using pos b4
      by (simp add: write_ldo23_setpoint_def get_ldo23_registers_def and_then_def lift_def
          read_register8_eq write_register8_eq set_bit_in_register_eq code_def Let_def)
    show ?thesis
      unfolding n w
      using r4 eb [of 4] ob [of 4]
      by (simp add: read_ldo23_setpoint_def get_ldo23_registers_def and_then_def lift_def returns_def
          read_register8_eq uint_byte_of_int Let_def code_def)
  next
    assume n: "num = 3"
    have w: "write_ldo23_setpoint 3 v s =
      (Inr (), s\<lparr>regs := (regs s)(0x28 := word_of_int ((?x AND NOT (push_bit 0 15)) OR push_bit 0 code),
                              0x12 := word_of_int (uint (regs s 0x12) OR 8)),
         bus_log := bus_log s @ [BusRead 0x28 1, BusWrite 0x28 ((?x AND NOT (push_bit 0 15)) OR push_bit 0 code),
            BusRead 0x12 1, BusWrite 0x12 (uint (regs s 0x12) OR 8)]\<rparr>)"
      using pos b0
      by (simp add: write_ldo23_setpoint_def get_ldo23_registers_def and_then_def lift_def
          read_register8_eq write_register8_eq set_bit_in_register_eq code_def Let_def)
    show ?thesis
      unfolding n w
      using r0 eb [of 8] ob [of 8]
      by (simp add: read_ldo23_setpoint_def get_ldo23_registers_def and_then_def lift_def returns_def
          read_register8_eq uint_byte_of_int Let_def code_def)
  qed
qed

lemma ldo_roundtrip_exact:
  assumes rail: "r = LDO2 \<or> r = LDO3" and range: "1.8 \<le> v" "v \<le> 3.3"
  shows "\<exists>s' g. setpoint_set r v s = (Inr (), s') \<and> fst (setpoint_get r s') = Inr g
           \<and> g \<le> v \<and> v - g < 0.1"
proof -
  define num :: int where "num = (if r = LDO2 then 2 else 3)"
  define c where "c = min 15 (py_int ((v - 1.8) * 10))"
  have num: "num = 2 \<or> num = 3" by (simp add: num_def)
  have set: "setpoint_set r v = write_ldo23_setpoint num v"
    and get: "setpoint_get r = read_ldo23_setpoint num"
    using rail by (auto simp: num_def)
  have pos: "0 \<le> v - 1.8" using range by simp
  have le: "(v - 1.8) * 10 \<le> 15" using range by simp
  note b = ldo_code_exact [OF pos le, folded c_def]
  obtain s' where s': "write_ldo23_setpoint num v s = (Inr (), s')"
      "fst (read_ldo23_setpoint num s') = Inr (real_of_int (c * 100 + 1800) / 1000)"
    using write_then_read_ldo23 [OF num pos, folded c_def, OF b(1), of s] by blast
  define g where "g = real_of_int (c * 100 + 1800) / 1000"
  have g: "g = (real_of_int c * 100 + 1800) / 1000" by (simp add: g_def)
  have lo: "g \<le> v" unfolding g using b(3) by (simp add: field_simps)
  have hi: "v - g < 0.1" unfolding g using b(4) by (simp add: field_simps)
  have "setpoint_set r v s = (Inr (), s')" by (simp only: set s'(1))
  moreover have "fst (setpoint_get r s') = Inr g" by (simp only: get s'(2) g_def)
  ultimately show ?thesis using lo hi by blast
qed

subsection \<open>Fields that share a register\<close>

lemma py_int_nonneg: "0 \<le> x \<Longrightarrow> 0 \<le> py_int x"
  by (simp add: py_int_def)

lemma ldo_code_bounds: "0 \<le> x \<Longrightarrow> 0 \<le> min 15 (py_int x) \<and> min 15 (py_int x) \<le> 15"
  using py_int_nonneg [of x] by simp

lemma write_ldo2_keeps_ldo3:
  "\<exists>s'. write_ldo23_setpoint 2 voltage s = (Inr (), s')
     \<and> uint (regs s' AXP192_LDO23_OUT_VOLTAGE) AND 0xF = uint (regs s AXP192_LDO23_OUT_VOLTAGE) AND 0xF"
proof (cases "voltage - 1.8 < 0")
  case True
  then show ?thesis
    by (simp add: write_ldo23_setpoint_def get_ldo23_registers_def and_then_def lift_def
        clear_bit_in_register_eq)
next
  case False
  define c where "c = min 15 (py_int ((voltage - 1.8) * 10))"
  have c: "0 \<le> c" "c \<le> 15" using ldo_code_bounds [of "(voltage - 1.8) * 10"] False
    by (simp_all add: c_def)
  have "push_bit 4 c = c * 16"
    by (simp add: push_bit_eq_mult)
  with c have p: "0 \<le> push_bit 4 c" "push_bit 4 c \<le> 255"
    by linarith+
  let ?new = "(uint (regs s 0x28) AND NOT (push_bit 4 15)) OR push_bit 4 c"
  have b: "0 \<le> ?new" "?new \<le> 255" using merge_bounds [OF p] by simp_all
  have "write_ldo23_setpoint 2 voltage s =
      (Inr (), s\<lparr>regs := (regs s)(0x28 := word_of_int ?new, 0x12 := word_of_int (uint (regs s 0x12) OR 4)),
         bus_log := bus_log s @ [BusRead 0x28 1, BusWrite 0x28 ?new, BusRead 0x12 1, BusWrite 0x12 (uint (regs s 0x12) OR 4)]\<rparr>)"
    using False b
    by (simp add: write_ldo23_setpoint_def get_ldo23_registers_def and_then_def lift_def
        read_register8_eq write_register8_eq set_bit_in_register_eq c_def Let_def)
  moreover have "uint (word_of_int ?new :: 8 word) AND 0xF = uint (regs s 0x28) AND 0xF"
    using b by (simp only: uint_byte_of_int high_nibble_merge_keeps_low)
  ultimately show ?thesis by simp
qed

lemma write_ldo3_keeps_ldo2:
  "\<exists>s'. write_ldo23_setpoint 3 voltage s = (Inr (), s')
     \<and> drop_bit 4 (uint (regs s' AXP192_LDO23_OUT_VOLTAGE)) AND 0xF
       = drop_bit 4 (uint (regs s AXP192_LDO23_OUT_VOLTAGE)) AND 0xF"
proof (cases "voltage - 1.8 < 0")
  case True
  then show ?thesis
    by (simp add: write_ldo23_setpoint_def get_ldo23_registers_def and_then_def lift_def
        clear_bit_in_register_eq)
next
  case False
  define c where "c = min 15 (py_int ((voltage - 1.8) * 10))"
  have c: "0 \<le> c" "c \<le> 15" using ldo_code_bounds [of "(voltage - 1.8) * 10"] False
    by (simp_all add: c_def)
  have p: "0 \<le> push_bit 0 c" "push_bit 0 c \<le> 255"
    using c by simp_all
  let ?new = "(uint (regs s 0x28) AND NOT (push_bit 0 15)) OR push_bit 0 c"
  have b: "0 \<le> ?new" "?new \<le> 255" using merge_bounds [OF p] by simp_all
  have "write_ldo23_setpoint 3 voltage s =
      (Inr (), s\<lparr>regs := (regs s)(0x28 := word_of_int ?new, 0x12 := word_of_int (uint (regs s 0x12) OR 8)),
         bus_log := bus_log s @ [BusRead 0x28 1, BusWrite 0x28 ?new, BusRead 0x12 1, BusWrite 0x12 (uint (regs s 0x12) OR 8)]\<rparr>)"
    using False b
    by (simp add: write_ldo23_setpoint_def get_ldo23_registers_def and_then_def lift_def
        read_register8_eq write_register8_eq set_bit_in_register_eq c_def Let_def)
  moreover have "drop_bit 4 (uint (word_of_int ?new :: 8 word)) AND 0xF = drop_bit 4 (uint (regs s 0x28)) AND 0xF"
    using b c by (simp only: uint_byte_of_int low_nibble_merge_keeps_high)
  ultimately show ?thesis by simp
qed

lemma set_gpio3_keeps_gpio4:
  "\<exists>s'. set_gpio_function 3 function s = (Inr (), s')
     \<and> drop_bit 2 (uint (regs s' AXP192_GPIO34_FUNCTION)) AND 0x03
       = drop_bit 2 (uint (regs s AXP192_GPIO34_FUNCTION)) AND 0x03"
proof -
  let ?new = "(uint (regs s 0x95) AND NOT 3) OR (function AND 3)"
  have f: "0 \<le> function AND 3" "function AND 3 \<le> 255"
    using AND_upper2 [of 3 "function"] by simp_all
  have b: "0 \<le> ?new" "?new \<le> 255" using merge_bounds [OF f] by simp_all
  have "set_gpio_function 3 function s =
     (Inr (), s\<lparr>regs := (regs s)(0x95 := word_of_int ?new),
        bus_log := bus_log s @ [BusRead 0x95 1, BusWrite 0x95 ?new]\<rparr>)"
    using b by (simp add: set_gpio_function_def and_then_def read_register8_eq write_register8_eq)
  moreover have "drop_bit 2 (uint (word_of_int ?new :: 8 word)) AND 3 = drop_bit 2 (uint (regs s 0x95)) AND 3"
    using b by (simp only: uint_byte_of_int gpio3_merge_keeps_gpio4)
  ultimately show ?thesis by simp
qed

lemma set_gpio4_keeps_gpio3:
  "\<exists>s'. set_gpio_function 4 function s = (Inr (), s')
     \<and> uint (regs s' AXP192_GPIO34_FUNCTION) AND 0x03
       = uint (regs s AXP192_GPIO34_FUNCTION) AND 0x03"
proof -
  let ?new = "(uint (regs s 0x95) AND NOT 12) OR push_bit 2 (function AND 3)"
  have a: "0 \<le> function AND 3" "function AND 3 \<le> 3"
    using AND_upper2 [of 3 "function"] by simp_all
  have "push_bit 2 (function AND 3) = (function AND 3) * 4"
    by (simp add: push_bit_eq_mult)
  with a have f: "0 \<le> push_bit 2 (function AND 3)" "push_bit 2 (function AND 3) \<le> 255"
    by linarith+
  have b: "0 \<le> ?new" "?new \<le> 255" using merge_bounds [OF f] by simp_all
  have "set_gpio_function 4 function s =
     (Inr (), s\<lparr>regs := (regs s)(0x95 := word_of_int ?new),
        bus_log := bus_log s @ [BusRead 0x95 1, BusWrite 0x95 ?new]\<rparr>)"
    using b by (simp add: set_gpio_function_def and_then_def read_register8_eq write_register8_eq)
  moreover have "uint (word_of_int ?new :: 8 word) AND 3 = uint (regs s 0x95) AND 3"
    using b by (simp only: uint_byte_of_int gpio4_merge_keeps_gpio3)
  ultimately show ?thesis by simp
qed

text \<open>
  C3. From every device state and for every argument: writing the LDO2 setpoint leaves
  bits 0-3 of register 0x28 (the LDO3 code) unchanged, writing the LDO3 setpoint leaves
  bits 4-7 (the LDO2 code) unchanged, setting the GPIO3 function succeeds and leaves
  bits 2-3 of register 0x95 (the GPIO4 field) unchanged, and setting the GPIO4 function
  succeeds and leaves bits 0-1 (the GPIO3 field) unchanged. For the two setpoints the
  statement is about the device after the call, whatever code the voltage was turned into.
\<close>

theorem shared_register_fields_isolated:
  "uint (regs (snd (setpoint_set LDO2 voltage s)) AXP192_LDO23_OUT_VOLTAGE) AND 0xF
      = uint (regs s AXP192_LDO23_OUT_VOLTAGE) AND 0xF
   \<and> drop_bit 4 (uint (regs (snd (setpoint_set LDO3 voltage s)) AXP192_LDO23_OUT_VOLTAGE)) AND 0xF
      = drop_bit 4 (uint (regs s AXP192_LDO23_OUT_VOLTAGE)) AND 0xF
   \<and> (\<exists>s'. set_gpio_function 3 function s = (Inr (), s')
      \<and> drop_bit 2 (uint (regs s' AXP192_GPIO34_FUNCTION)) AND 0x03
        = drop_bit 2 (uint (regs s AXP192_GPIO34_FUNCTION)) AND 0x03)
   \<and> (\<exists>s'. set_gpio_function 4 function s = (Inr (), s')
      \<and> uint (regs s' AXP192_GPIO34_FUNCTION) AND 0x03
        = uint (regs s AXP192_GPIO34_FUNCTION) AND 0x03)"
proof -
  obtain s2 where s2: "write_ldo23_setpoint 2 voltage s = (Inr (), s2)"
      "uint (regs s2 0x28) AND 0xF = uint (regs s 0x28) AND 0xF"
    using write_ldo2_keeps_ldo3 [of voltage s] by blast
  obtain s3 where s3: "write_ldo23_setpoint 3 voltage s = (Inr (), s3)"
      "drop_bit 4 (uint (regs s3 0x28)) AND 0xF = drop_bit 4 (uint (regs s 0x28)) AND 0xF"
    using write_ldo3_keeps_ldo2 [of voltage s] by blast
  show ?thesis
    using s2 s3 set_gpio3_keeps_gpio4 [of "function" s] set_gpio4_keeps_gpio3 [of "function" s]
    by simp
qed

text \<open>
  An instance: with 0xA5 in register 0x28, setting LDO2 to 2.5 V stores code 7 in the
  high nibble and keeps the 5 of LDO3; setting LDO3 to 2.5 V keeps the 0xA of LDO2.
\<close>

lemma ldo_write_example:
  "regs (snd (setpoint_set LDO2 2.5 stale_device)) AXP192_LDO23_OUT_VOLTAGE = 0x75
   \<and> regs (snd (setpoint_set LDO3 2.5 stale_device)) AXP192_LDO23_OUT_VOLTAGE = 0xA7"
  by (simp add: write_ldo23_setpoint_def get_ldo23_registers_def and_then_def lift_def
      read_register8_eq write_register8_eq set_bit_in_register_eq py_int_def stale_device_def)

subsection \<open>12-bit registers\<close>

text \<open>
  The claim as stated fails: with 0x01 and 0x23 in registers 0x56 and 0x57, the 12-bit read
  of 0x56 does not return 0x123.
\<close>

theorem read_register12_literal_pair_counterexample:
  "regs adc_device 0x56 = 0x01 \<and> regs adc_device 0x57 = 0x23
   \<and> fst (read_register12 0x56 adc_device) \<noteq> Inr 0x123"
  by (simp add: read_register12_eq adc_device_def)

text \<open>
  C4 as amended. Reading a 12-bit register returns \<open>(byte0 << 4) | byte1\<close> of the two
  bytes the bus returns, for every register number 0..255 and every device state; for the
  byte pair (0x01, 0x23) that value is 0x33 (the two nibbles that overlap are OR-ed), not
  0x123.
\<close>

theorem read_register12_assembles_bytes:
  "(0 \<le> r \<and> r \<le> 255 \<longrightarrow>
      fst (read_register12 r s) = Inr (push_bit 4 (uint (regs s r)) OR uint (regs s (r + 1))))
   \<and> (0 \<le> r \<and> r \<le> 255 \<and> regs s r = 0x01 \<and> regs s (r + 1) = 0x23 \<longrightarrow>
      fst (read_register12 r s) = Inr 0x33)"
  by (simp add: read_register12_eq)

theorem read_register12_assembles_bytes_witness:
  "(0::int) \<le> 0x56 \<and> (0x56::int) \<le> 255
   \<and> regs adc_device 0x56 = 0x01 \<and> regs adc_device (0x56 + 1) = 0x23
   \<and> fst (read_register12 0x56 adc_device) = Inr 0x33"
  using read_register12_assembles_bytes [of "0x56" adc_device]
  by (simp add: adc_device_def)

subsection \<open>PWM duty cycle\<close>

text \<open>
  The claim as stated fails: a duty cycle of 300 on pin 1 is rejected with ValueError and
  nothing is written, rather than clamped to 255 and written.
\<close>

theorem pwm_duty_out_of_range_counterexample:
  "set_gpio_pwm_out (PyInt 1) (PyInt 300) blank_device = (Inl ValueError, blank_device)"
  by (simp add: set_gpio_pwm_out_def and_then_def lift_def raises_def)

text \<open>
  C5 as amended. For pins 1 and 2 and every integer duty cycle: a value outside 0..255
  raises ValueError and leaves the device as it was, with no bus transaction; a value
  within 0..255 is written unchanged to the duty register (the register after the
  prescaler register, which is set to 0xFF), followed by function code 2 for the pin.
  A duty cycle that is not an integer is rejected in the same way.
\<close>

theorem pwm_duty_checked_not_clamped:
  "(1 \<le> n \<and> n \<le> 2 \<and> (d < 0 \<or> 255 < d) \<longrightarrow>
      set_gpio_pwm_out (PyInt n) (PyInt d) s = (Inl ValueError, s))
   \<and> (1 \<le> n \<and> n \<le> 2 \<and> 0 \<le> d \<and> d \<le> 255 \<longrightarrow>
      (\<exists>s'. set_gpio_pwm_out (PyInt n) (PyInt d) s = (Inr (), s')
         \<and> regs s' (pwm_reg_of n) = 0xFF
         \<and> regs s' (pwm_reg_of n + 1) = word_of_int d
         \<and> uint (regs s' (pwm_reg_of n + 1)) = d
         \<and> bus_log s' = bus_log s @
              [BusWrite (pwm_reg_of n) 0xFF, BusWrite (pwm_reg_of n + 1) d,
               BusWrite (if n = 1 then AXP192_GPIO1_FUNCTION else AXP192_GPIO2_FUNCTION) 0x02]))
   \<and> (1 \<le> n \<and> n \<le> 2 \<longrightarrow>
      set_gpio_pwm_out (PyInt n) (PyFloat x) s = (Inl ValueError, s)
      \<and> set_gpio_pwm_out (PyInt n) (PyStr t) s = (Inl ValueError, s))"
proof -
  have n12: "1 \<le> n \<and> n \<le> 2 \<longleftrightarrow> n = 1 \<or> n = 2" by auto
  show ?thesis
    unfolding n12
    by (auto simp: set_gpio_pwm_out_def and_then_def lift_def raises_def pwm_reg_of_def
        write_register8_eq set_gpio_function_def uint_byte_of_int)
qed

theorem pwm_duty_checked_not_clamped_witness:
  "set_gpio_pwm_out (PyInt 2) (PyInt (-1)) blank_device = (Inl ValueError, blank_device)
   \<and> fst (set_gpio_pwm_out (PyInt 1) (PyInt 128) blank_device) = Inr ()
   \<and> regs (snd (set_gpio_pwm_out (PyInt 1) (PyInt 128) blank_device)) 0x9A = 128"
proof -
  have "set_gpio_pwm_out (PyInt 2) (PyInt (-1)) blank_device = (Inl ValueError, blank_device)"
    using pwm_duty_checked_not_clamped [of 2 "-1" blank_device 0 "[]"] by simp
  moreover have "fst (set_gpio_pwm_out (PyInt 1) (PyInt 128) blank_device) = Inr ()
   \<and> regs (snd (set_gpio_pwm_out (PyInt 1) (PyInt 128) blank_device)) 0x9A = 128"
    using pwm_duty_checked_not_clamped [of 1 128 blank_device 0 "[]"]
    by (auto simp: pwm_reg_of_def)
  ultimately show ?thesis by simp
qed

subsection \<open>Power key latch\<close>

lemma and_two_bit: "(x AND 2 \<noteq> 0) = bit (x::int) 1"
  using and_exp_eq_0_iff_not_bit [of x 1] by simp

lemma and_one_bit: "(x AND 1 \<noteq> 0) = bit (x::int) 0"
  using and_exp_eq_0_iff_not_bit [of x 0] by simp

text \<open>
  C6. When the status register 0x46 reads 0b00000011, the power-key read returns
  (True, True) and writes 0b00000011 back to 0x46. In every state the returned pair is bit 1
  and bit 0 of the value read before any write, and the write-back of 0b00000011 is issued
  exactly when one of the two bits was set. When the status register reads 0, the call
  returns (False, False) and writes nothing: that is the second call, once the chip has
  cleared the latch.
\<close>

theorem power_key_latch_read_and_clear:
  "(regs s AXP192_IRQ_3_STATUS = 0x03 \<longrightarrow>
      fst (power_key_was_pressed s) = Inr (True, True)
      \<and> bus_log (snd (power_key_was_pressed s)) =
          bus_log s @ [BusRead AXP192_IRQ_3_STATUS 1, BusWrite AXP192_IRQ_3_STATUS 0x03])
   \<and> (\<exists>s'. power_key_was_pressed s =
          (Inr (bit (regs s AXP192_IRQ_3_STATUS) 1, bit (regs s AXP192_IRQ_3_STATUS) 0), s')
        \<and> bus_log s' = bus_log s @ BusRead AXP192_IRQ_3_STATUS 1 #
            (if bit (regs s AXP192_IRQ_3_STATUS) 1 \<or> bit (regs s AXP192_IRQ_3_STATUS) 0
             then [BusWrite AXP192_IRQ_3_STATUS 0x03] else []))
   \<and> (regs s AXP192_IRQ_3_STATUS = 0 \<longrightarrow>
      power_key_was_pressed s =
        (Inr (False, False), s\<lparr>bus_log := bus_log s @ [BusRead AXP192_IRQ_3_STATUS 1]\<rparr>))"
  by (simp add: power_key_was_pressed_def and_then_def returns_def read_register8_eq
      write_register8_eq and_two_bit and_one_bit bit_uint_iff Let_def)

theorem power_key_latch_read_and_clear_witness:
  "regs gpio_device AXP192_IRQ_3_STATUS = 0x03
   \<and> fst (power_key_was_pressed gpio_device) = Inr (True, True)
   \<and> bus_log (snd (power_key_was_pressed gpio_device))
       = [BusRead AXP192_IRQ_3_STATUS 1, BusWrite AXP192_IRQ_3_STATUS 0x03]
   \<and> regs blank_device AXP192_IRQ_3_STATUS = 0
   \<and> power_key_was_pressed blank_device
       = (Inr (False, False), blank_device\<lparr>bus_log := [BusRead AXP192_IRQ_3_STATUS 1]\<rparr>)"
proof -
  have h: "regs gpio_device AXP192_IRQ_3_STATUS = 0x03" by (simp add: gpio_device_def)
  have h0: "regs blank_device AXP192_IRQ_3_STATUS = 0" by (simp add: blank_device_def)
  have "fst (power_key_was_pressed gpio_device) = Inr (True, True)
   \<and> bus_log (snd (power_key_was_pressed gpio_device))
       = [BusRead AXP192_IRQ_3_STATUS 1, BusWrite AXP192_IRQ_3_STATUS 0x03]"
    using power_key_latch_read_and_clear [of gpio_device] h by (simp add: gpio_device_def)
  moreover have "power_key_was_pressed blank_device
       = (Inr (False, False), blank_device\<lparr>bus_log := [BusRead AXP192_IRQ_3_STATUS 1]\<rparr>)"
    using power_key_latch_read_and_clear [of blank_device] h0 by (simp add: blank_device_def)
  ultimately show ?thesis using h h0 by simp
qed

subsection \<open>Battery level\<close>

lemma battery_voltage_eq:
  "battery_voltage s =
     (Inr (0.0011 * real_of_int (push_bit 4 (uint (regs s 0x78)) OR uint (regs s 0x79))),
      s\<lparr>bus_log := bus_log s @ [BusRead 0x78 2]\<rparr>)"
  by (simp add: battery_voltage_def and_then_def returns_def read_register12_eq)

lemma battery_charge_current_eq:
  "battery_charge_current s =
     (Inr (0.5 * real_of_int (push_bit 4 (uint (regs s 0x7A)) OR uint (regs s 0x7B))),
      s\<lparr>bus_log := bus_log s @ [BusRead 0x7A 2]\<rparr>)"
  by (simp add: battery_charge_current_def and_then_def returns_def read_register12_eq)

lemma battery_switch_off_voltage_bounds:
  "\<exists>vmin. battery_switch_off_voltage s = (Inr vmin, s\<lparr>bus_log := bus_log s @ [BusRead 0x31 1]\<rparr>)
     \<and> 2.6 \<le> vmin \<and> vmin \<le> 3.3"
proof -
  let ?c = "uint (regs s 0x31) AND 7"
  have "0 \<le> ?c" "?c \<le> 7" using AND_upper2 [of 7 "uint (regs s 0x31)"] by simp_all
  then have "0 \<le> real_of_int ?c" "real_of_int ?c \<le> 7" by linarith+
  then have "2.6 \<le> 2.6 + 0.1 * real_of_int ?c" "2.6 + 0.1 * real_of_int ?c \<le> 3.3" by linarith+
  then show ?thesis
    by (simp add: battery_switch_off_voltage_def and_then_def returns_def read_register8_eq Let_def)
qed

lemma battery_charge_target_voltage_bounds:
  "\<exists>vmax. battery_charge_target_voltage s = (Inr vmax, s\<lparr>bus_log := bus_log s @ [BusRead 0x33 1]\<rparr>)
     \<and> 4.1 \<le> vmax"
proof -
  define c where "c = drop_bit 5 (uint (regs s 0x33) AND 0x60)"
  define vmax :: real where
    "vmax = (if c = 0 then 4.1 else if c = 1 then 4.15 else if c = 2 then 4.2 else 4.36)"
  have "battery_charge_target_voltage s = (Inr vmax, s\<lparr>bus_log := bus_log s @ [BusRead 0x33 1]\<rparr>)"
    unfolding battery_charge_target_voltage_def and_then_def read_register8_eq [of "0x33", simplified]
    by (simp add: returns_def Let_def vmax_def c_def del: drop_bit_and)
  moreover have "4.1 \<le> vmax" by (simp add: vmax_def)
  ultimately show ?thesis by blast
qed

text \<open>
  C7. In every device state the four reads succeed, the switch-off threshold is below the
  charge target (so the division is defined), and the battery level is
  \<open>(v - vmin) / (vmax - vmin) * 100\<close>, minus 10 when the charge current exceeds 15 mA,
  clamped by \<open>min(100, max(0, level))\<close>: the returned value lies in [0, 100]. The clamp
  compares and selects, so the bounds do not depend on rounding.
\<close>

theorem battery_level_within_0_100:
  "\<exists>v i vmin vmax s1 s2 s3 s4.
      battery_voltage s = (Inr v, s1)
    \<and> battery_charge_current s1 = (Inr i, s2)
    \<and> battery_switch_off_voltage s2 = (Inr vmin, s3)
    \<and> battery_charge_target_voltage s3 = (Inr vmax, s4)
    \<and> vmin < vmax
    \<and> battery_level s =
        (Inr (min 100 (max 0 ((v - vmin) / (vmax - vmin) * 100 - (if i > 15 then 10 else 0)))), s4)
    \<and> (\<exists>level. fst (battery_level s) = Inr level \<and> 0 \<le> level \<and> level \<le> 100)"
proof -
  obtain v s1 where v: "battery_voltage s = (Inr v, s1)"
    using battery_voltage_eq by blast
  obtain i s2 where i: "battery_charge_current s1 = (Inr i, s2)"
    using battery_charge_current_eq by blast
  obtain vmin s3 where vmin: "battery_switch_off_voltage s2 = (Inr vmin, s3)" "vmin \<le> 3.3"
    using battery_switch_off_voltage_bounds [of s2] by blast
  obtain vmax s4 where vmax: "battery_charge_target_voltage s3 = (Inr vmax, s4)" "4.1 \<le> vmax"
    using battery_charge_target_voltage_bounds [of s3] by blast
  have lt: "vmin < vmax" using vmin(2) vmax(2) by linarith
  let ?level = "min 100 (max 0 ((v - vmin) / (vmax - vmin) * 100 - (if i > 15 then 10 else 0)))"
  have lvl: "battery_level s = (Inr ?level, s4)"
    using lt by (simp add: battery_level_def and_then_def raises_def returns_def v i vmin(1) vmax(1) Let_def)
  have "0 \<le> ?level" "?level \<le> 100" by simp_all
  with lvl have "\<exists>level. fst (battery_level s) = Inr level \<and> 0 \<le> level \<and> level \<le> 100"
    by simp
  with v i vmin(1) vmax(1) lt lvl show ?thesis by blast
qed

subsection \<open>Invalid requests are refused before any bus transaction\<close>

text \<open>
  C8. Requesting PWM output on pin 0 (with any duty cycle) and requesting floating mode on
  pin 3 both raise ValueError, and the device is exactly as before: no register has
  changed and no transaction, read or write, has been added to the bus log.
\<close>

theorem invalid_pin_mode_rejected_without_bus_access:
  "set_gpio_pwm_out (PyInt 0) duty_cycle s = (Inl ValueError, s)
   \<and> set_gpio_floating (PyInt 3) s = (Inl ValueError, s)"
  by (simp add: set_gpio_pwm_out_def set_gpio_floating_def and_then_def lift_def raises_def)

subsection \<open>GPIO modes read back\<close>

lemma three_bit_cases: "0 \<le> (f::int) \<Longrightarrow> f \<le> 7 \<Longrightarrow> f = 0 \<or> f = 1 \<or> f = 2 \<or> f = 3 \<or> f = 4 \<or> f = 5 \<or> f = 6 \<or> f = 7"
  by arith

lemma floating_test:
  assumes "0 \<le> (f::int)" "f \<le> 7"
  shows "(f AND 6 = 6) = (bit f 1 \<and> bit f 2)" "(bit f 1 \<and> bit f 2) = (f = 6 \<or> f = 7)"
  using three_bit_cases [OF assms] by (auto simp: bit_iff_odd)

lemma get_gpio_function_low:
  "0 \<le> n \<Longrightarrow> n \<le> 2 \<Longrightarrow>
   \<exists>f r. get_gpio_function n s = (Inr f, s\<lparr>bus_log := bus_log s @ [BusRead r 1]\<rparr>)
      \<and> f = uint (regs s r) AND 7 \<and> 0 \<le> f \<and> f \<le> 7
      \<and> r = (if n = 0 then 0x90 else if n = 1 then 0x92 else 0x93)"
proof -
  assume "0 \<le> n" "n \<le> 2"
  then have n: "n = 0 \<or> n = 1 \<or> n = 2" by arith
  have b: "\<And>x::int. 0 \<le> x \<Longrightarrow> x AND 7 \<le> 7" using AND_upper2 [of 7] by simp
  from n show ?thesis
    by (auto simp: get_gpio_function_def and_then_def returns_def read_register8_eq b)
qed

text \<open>
  C9. For every pin 0..2 the floating-mode query returns True exactly when bits 1 and 2 of
  the stored 3-bit function code are both set, that is for the codes 6 and 7; the floating
  setter stores the code 7.
\<close>

theorem floating_query_tests_bits_1_and_2:
  "0 \<le> n \<Longrightarrow> n \<le> 2 \<Longrightarrow>
   \<exists>f s1. get_gpio_function n s = (Inr f, s1) \<and> 0 \<le> f \<and> f \<le> 7
     \<and> is_gpio_floating (PyInt n) s = (Inr (bit f 1 \<and> bit f 2), s1)
     \<and> (bit f 1 \<and> bit f 2) = (f = 6 \<or> f = 7)
     \<and> (\<exists>s'. set_gpio_floating (PyInt n) s = (Inr (), s') \<and> fst (get_gpio_function n s') = Inr 7)"
proof -
  assume n: "0 \<le> n" "n \<le> 2"
  obtain f r where f: "get_gpio_function n s = (Inr f, s\<lparr>bus_log := bus_log s @ [BusRead r 1]\<rparr>)"
      "0 \<le> f" "f \<le> 7"
    using get_gpio_function_low [OF n, of s] by blast
  have q: "is_gpio_floating (PyInt n) s = (Inr (bit f 1 \<and> bit f 2), s\<lparr>bus_log := bus_log s @ [BusRead r 1]\<rparr>)"
    using n f(1) floating_test(1) [OF f(2,3)]
    by (simp add: is_gpio_floating_def and_then_def lift_def returns_def)
  have n3: "n = 0 \<or> n = 1 \<or> n = 2" using n by arith
  have w: "\<exists>s'. set_gpio_floating (PyInt n) s = (Inr (), s') \<and> fst (get_gpio_function n s') = Inr 7"
    using n3
    by (auto simp: set_gpio_floating_def set_gpio_function_def get_gpio_function_def and_then_def
        lift_def returns_def write_register8_eq read_register8_eq)
  from f q floating_test(2) [OF f(2,3)] w show ?thesis by blast
qed

theorem floating_query_tests_bits_1_and_2_witness:
  "(0::int) \<le> 1 \<and> (1::int) \<le> 2
   \<and> fst (get_gpio_function 1 gpio_device) = Inr 6
   \<and> fst (is_gpio_floating (PyInt 1) gpio_device) = Inr True"
proof -
  have g: "get_gpio_function 1 gpio_device = (Inr 6, gpio_device\<lparr>bus_log := [BusRead 0x92 1]\<rparr>)"
    by (simp add: get_gpio_function_def and_then_def returns_def read_register8_eq gpio_device_def)
  have "fst (is_gpio_floating (PyInt 1) gpio_device) = Inr True"
    using floating_query_tests_bits_1_and_2 [of 1 gpio_device] g by auto
  with g show ?thesis by simp
qed

text \<open>
  C10. For pins 1 and 2: when the stored function code is not 2, the PWM duty getter raises
  ValueError; when it is 2, the getter returns the content of the pin's duty register.
\<close>

theorem pwm_duty_getter_raises_unless_pwm_mode:
  "1 \<le> n \<Longrightarrow> n \<le> 2 \<Longrightarrow>
   \<exists>f s1. get_gpio_function n s = (Inr f, s1)
     \<and> (f \<noteq> 0x02 \<longrightarrow> get_gpio_pwm_out (PyInt n) s = (Inl ValueError, s1))
     \<and> (f = 0x02 \<longrightarrow> get_gpio_pwm_out (PyInt n) s =
          (Inr (uint (regs s (pwm_reg_of n + 1))),
           s1\<lparr>bus_log := bus_log s1 @ [BusRead (pwm_reg_of n + 1) 1]\<rparr>))"
proof -
  assume n: "1 \<le> n" "n \<le> 2"
  then have n0: "0 \<le> n" by simp
  obtain f r where f: "get_gpio_function n s = (Inr f, s\<lparr>bus_log := bus_log s @ [BusRead r 1]\<rparr>)"
    using get_gpio_function_low [OF n0 n(2), of s] by blast
  have n2: "n = 1 \<or> n = 2" using n by arith
  have "f \<noteq> 2 \<longrightarrow> get_gpio_pwm_out (PyInt n) s = (Inl ValueError, s\<lparr>bus_log := bus_log s @ [BusRead r 1]\<rparr>)"
    using n f
    by (simp add: get_gpio_pwm_out_def is_gpio_pwm_out_def and_then_def lift_def returns_def raises_def)
  moreover have "f = 2 \<longrightarrow> get_gpio_pwm_out (PyInt n) s =
          (Inr (uint (regs s (pwm_reg_of n + 1))),
           s\<lparr>bus_log := bus_log s @ [BusRead r 1, BusRead (pwm_reg_of n + 1) 1]\<rparr>)"
    using n2 f
    by (auto simp: get_gpio_pwm_out_def is_gpio_pwm_out_def and_then_def lift_def returns_def
        raises_def read_register8_eq pwm_reg_of_def)
  ultimately show ?thesis using f by simp
qed

theorem pwm_duty_getter_raises_unless_pwm_mode_witness:
  "(1::int) \<le> 1 \<and> (1::int) \<le> 2
   \<and> fst (get_gpio_function 1 gpio_device) = Inr 6
   \<and> fst (get_gpio_pwm_out (PyInt 1) gpio_device) = Inl ValueError
   \<and> fst (get_gpio_function 2 gpio_device) = Inr 2
   \<and> fst (get_gpio_pwm_out (PyInt 2) gpio_device) = Inr 0x80"
proof -
  have g1: "get_gpio_function 1 gpio_device = (Inr 6, gpio_device\<lparr>bus_log := [BusRead 0x92 1]\<rparr>)"
    by (simp add: get_gpio_function_def and_then_def returns_def read_register8_eq gpio_device_def)
  have g2: "get_gpio_function 2 gpio_device = (Inr 2, gpio_device\<lparr>bus_log := [BusRead 0x93 1]\<rparr>)"
    by (simp add: get_gpio_function_def and_then_def returns_def read_register8_eq gpio_device_def)
  have "fst (get_gpio_pwm_out (PyInt 1) gpio_device) = Inl ValueError"
    using pwm_duty_getter_raises_unless_pwm_mode [of 1 gpio_device] g1 by auto
  moreover have "fst (get_gpio_pwm_out (PyInt 2) gpio_device) = Inr 0x80"
    using pwm_duty_getter_raises_unless_pwm_mode [of 2 gpio_device] g2
    by (auto simp: pwm_reg_of_def gpio_device_def)
  ultimately show ?thesis using g1 g2 by simp
qed

end
